theory Spec2Isabelle
  imports Main
begin

section \<open>The Criteo provider of oauth2\_proxy (providers/criteo.go)\<close>

text \<open>
  A shallow embedding of \<^verbatim>\<open>src/providers/criteo.go\<close>. Conventions:
  \<^item> a Go struct is a record, with the field names of the source;
  \<^item> a pointer that the source tests against \<^verbatim>\<open>nil\<close> is an \<open>option\<close>; a pointer that the
    source dereferences without a test is the value it points to;
  \<^item> a function that mutates the session returns the session it leaves behind;
  \<^item> everything outside the file (the HTTP transport with its JSON decoding, the wall
    clock, the log and standard output) is the record \<open>env\<close> of collaborators, about
    which nothing is assumed, and the record \<open>world\<close> of what has been observed so far;
  \<^item> \<^verbatim>\<open>ValidateSessionState\<close> only forwards to \<^verbatim>\<open>validateToken\<close>, which is declared
    elsewhere in the package, and is left out.
\<close>

subsection \<open>Time (package time)\<close>

text \<open>
  A \<^verbatim>\<open>time.Time\<close> is the number of nanoseconds since Go's zero time, a
  \<^verbatim>\<open>time.Duration\<close> a number of nanoseconds. \<^verbatim>\<open>t.Truncate(d)\<close> rounds \<open>t\<close> down to a
  multiple of \<open>d\<close> since the zero time, and returns \<open>t\<close> when \<open>d \<le> 0\<close>.
\<close>

type_synonym time = int
type_synonym duration = int

definition Second :: duration where
  "Second = 1000000000"

definition Add :: "time \<Rightarrow> duration \<Rightarrow> time" where
  "Add t d = t + d"

definition Truncate :: "time \<Rightarrow> duration \<Rightarrow> time" where
  "Truncate t d = (if d \<le> 0 then t else t - t mod d)"

definition After :: "time \<Rightarrow> time \<Rightarrow> bool" where
  "After t u = (u < t)"

subsection \<open>Sessions, URLs, requests and the decoded responses\<close>

text \<open>The fields of \<^verbatim>\<open>sessions.SessionState\<close> that the file reads or writes.\<close>

record SessionState =
  AccessToken :: string
  RefreshToken :: string
  Email :: string
  User :: string
  ExpiresOn :: "time option"

text \<open>The fields of \<^verbatim>\<open>url.URL\<close> that the file sets.\<close>

record URL =
  Scheme :: string
  Host :: string
  Path :: string
  RawQuery :: string

text \<open>
  \<^verbatim>\<open>u.String() == ""\<close>: with only these four fields set, the string form of a URL is
  empty exactly when all four are.
\<close>

definition String_is_empty :: "URL \<Rightarrow> bool" where
  "String_is_empty u = (Scheme u = [] \<and> Host u = [] \<and> Path u = [] \<and> RawQuery u = [])"

text \<open>
  The error values. The first three are made in this file:
  \<^verbatim>\<open>errors.New("missing access token")\<close>, \<^verbatim>\<open>fmt.Errorf("can't find email")\<close> and
  \<^verbatim>\<open>fmt.Errorf("%s is no longer in the group(s)", s.Email)\<close>. The others come from the
  collaborators: a URL that \<^verbatim>\<open>http.NewRequest\<close> rejects, a transport failure, a body that
  does not decode, a cancelled context.
\<close>

datatype error =
    MissingCredential
  | ProfileIncomplete
  | GroupMembershipLost string
  | InvalidURL
  | RemoteUnavailable
  | DecodeError
  | Cancelled

text \<open>
  A \<^verbatim>\<open>context.Context\<close>: the background context, which is never cancelled, or a context
  supplied by the caller, with whether it is cancelled (or past its deadline) while the
  call it is handed to runs.
\<close>

datatype "context" = Background | Supplied bool

type_synonym header = "string \<rightharpoonup> string list"

definition Set :: "header \<Rightarrow> string \<Rightarrow> string \<Rightarrow> header" where
  "Set h key v = h(key \<mapsto> [v])"

record request =
  Method :: string
  Url :: URL
  Header :: header
  Ctx :: "context"

record tokenInfo =
  tokenInfo_Email :: string
  tokenInfo_User :: string

record profileResponse =
  Cn :: string
  Dn :: string

record groupInfo =
  Name :: string

record groupsResponse =
  Groups :: "groupInfo list"

record criteoProfile =
  profile :: profileResponse
  groups :: groupsResponse

subsection \<open>The collaborators and the observable world\<close>

text \<open>
  \<open>NewRequestErr\<close> is the error, if any, with which \<^verbatim>\<open>http.NewRequest\<close> rejects the
  string form of a URL. The three \<open>\<dots>JSON\<close> functions are \<^verbatim>\<open>requests.RequestJSON\<close> at the
  three targets the file decodes into: each gives, for the requests sent before and the
  request made now, the error or the decoded value. \<open>clock\<close> gives the successive
  readings of \<^verbatim>\<open>time.Now()\<close>.
\<close>

record env =
  NewRequestErr :: "URL \<Rightarrow> error option"
  tokenInfoJSON :: "request list \<Rightarrow> request \<Rightarrow> error + tokenInfo"
  profileJSON :: "request list \<Rightarrow> request \<Rightarrow> error + profileResponse"
  groupsJSON :: "request list \<Rightarrow> request \<Rightarrow> error + groupInfo list"
  clock :: "nat \<Rightarrow> time"

text \<open>
  What the program has done so far: the HTTP requests handed to the transport, in order;
  the number of clock readings; the errors written with \<^verbatim>\<open>log.Print\<close>; the lines written
  with \<^verbatim>\<open>fmt.Printf\<close> (the session and the expiry they print).
\<close>

record world =
  sent :: "request list"
  ticks :: nat
  logged :: "error list"
  printed :: "(SessionState \<times> time option) list"

definition time_Now :: "env \<Rightarrow> world \<Rightarrow> time \<times> world" where
  "time_Now e w = (clock e (ticks w), w\<lparr>ticks := Suc (ticks w)\<rparr>)"

text \<open>
  \<^verbatim>\<open>http.NewRequestWithContext(ctx, method, u.String(), nil)\<close> either rejects the URL or
  gives a request for that URL, bound to \<open>ctx\<close>, with an empty header.
  \<^verbatim>\<open>http.NewRequest\<close> is the same with the background context.
  \<^verbatim>\<open>requests.RequestJSON(req, &v)\<close> hands the request to the transport, which is recorded
  in \<open>sent\<close> whatever the outcome, and gives the error or the value decoded into \<open>v\<close>.
\<close>

definition NewRequestWithContext ::
    "env \<Rightarrow> context \<Rightarrow> string \<Rightarrow> URL \<Rightarrow> error + request" where
  "NewRequestWithContext e ctx method u =
     (case NewRequestErr e u of
        Some err \<Rightarrow> Inl err
      | None \<Rightarrow> Inr \<lparr>Method = method, Url = u, Header = Map.empty, Ctx = ctx\<rparr>)"

definition NewRequest :: "env \<Rightarrow> string \<Rightarrow> URL \<Rightarrow> error + request" where
  "NewRequest e method u = NewRequestWithContext e Background method u"

definition RequestJSON ::
    "(request list \<Rightarrow> request \<Rightarrow> error + 'a) \<Rightarrow> request \<Rightarrow> world \<Rightarrow> (error + 'a) \<times> world" where
  "RequestJSON decode req w = (decode (sent w) req, w\<lparr>sent := sent w @ [req]\<rparr>)"

subsection \<open>The provider\<close>

text \<open>
  \<^verbatim>\<open>ProviderData\<close> is declared elsewhere in the package; these are the fields the file
  uses. \<^verbatim>\<open>CriteoProvider\<close> embeds it. \<open>GroupValidator\<close>, in the source the closure
  \<^verbatim>\<open>func(s) bool { return p.userInGroup(groups, s) }\<close>, is the list \<open>groups\<close> the closure
  captures. Both added fields are \<^verbatim>\<open>nil\<close> until \<open>Configure\<close> has run, so a \<open>CriteoProvider\<close>
  here is a configured one: \<open>NewCriteoProvider\<close> gives the embedded data and \<open>Configure\<close>
  the provider.
\<close>

record ProviderData =
  ProviderName :: string
  Scope :: string
  LoginURL :: URL
  RedeemURL :: URL
  ProfileURL :: URL
  ValidateURL :: URL

record CriteoProvider = ProviderData +
  GroupValidator :: "string list"
  IdentityURL :: URL

definition NewCriteoProvider :: "ProviderData \<Rightarrow> ProviderData" where
  "NewCriteoProvider p =
     (let p = p\<lparr>ProviderName := ''Criteo''\<rparr>
      in if Scope p = [] then p\<lparr>Scope := ''cn mail uid dn umsId''\<rparr> else p)"

definition Configure :: "ProviderData \<Rightarrow> string \<Rightarrow> string \<Rightarrow> string list \<Rightarrow> CriteoProvider" where
  "Configure p ssoHost identityHost groups_arg =
     (let identity = \<lparr>Scheme = ''http'', Host = identityHost, Path = ''/user/'', RawQuery = []\<rparr>;
          p = (if String_is_empty (LoginURL p)
               then p\<lparr>LoginURL := \<lparr>Scheme = ''https'', Host = ssoHost,
                      Path = ''/auth/oauth2/authorize'', RawQuery = ''realm=criteo''\<rparr>\<rparr>
               else p);
          p = (if String_is_empty (RedeemURL p)
               then p\<lparr>RedeemURL := \<lparr>Scheme = ''https'', Host = ssoHost,
                      Path = ''/auth/oauth2/access_token'', RawQuery = ''realm=criteo''\<rparr>\<rparr>
               else p);
          p = (if String_is_empty (ProfileURL p)
               then p\<lparr>ProfileURL := \<lparr>Scheme = ''https'', Host = ssoHost,
                      Path = ''/auth/oauth2/tokeninfo'', RawQuery = ''realm=criteo''\<rparr>\<rparr>
               else p);
          p = (if String_is_empty (ValidateURL p) then p\<lparr>ValidateURL := ProfileURL p\<rparr> else p)
      in ProviderData.extend p
           (CriteoProvider.fields groups_arg identity))"

definition getCriteoHeader :: "string \<Rightarrow> header" where
  "getCriteoHeader accessToken =
     Set (Set Map.empty ''Accept'' ''application/json'')
       ''Authorization'' (''Bearer '' @ accessToken)"

subsection \<open>Requests\<close>

definition requestJSONWithContext ::
    "env \<Rightarrow> (request list \<Rightarrow> request \<Rightarrow> error + 'a) \<Rightarrow> context \<Rightarrow> SessionState option \<Rightarrow> URL
      \<Rightarrow> world \<Rightarrow> (error + 'a) \<times> world" where
  "requestJSONWithContext e decode ctx s u w =
     (case s of
        Some s' \<Rightarrow>
          if AccessToken s' = [] then (Inl MissingCredential, w)
          else (case NewRequestWithContext e ctx ''GET'' u of
                  Inl err \<Rightarrow> (Inl err, w)
                | Inr req \<Rightarrow>
                    RequestJSON decode (req\<lparr>Header := getCriteoHeader (AccessToken s')\<rparr>) w)
      | None \<Rightarrow>
          (case NewRequestWithContext e ctx ''GET'' u of
             Inl err \<Rightarrow> (Inl err, w)
           | Inr req \<Rightarrow> RequestJSON decode req w))"

definition requestJSON ::
    "env \<Rightarrow> (request list \<Rightarrow> request \<Rightarrow> error + 'a) \<Rightarrow> SessionState option \<Rightarrow> URL
      \<Rightarrow> world \<Rightarrow> (error + 'a) \<times> world" where
  "requestJSON e decode s u w =
     (case s of
        Some s' \<Rightarrow>
          if AccessToken s' = [] then (Inl MissingCredential, w)
          else (case NewRequest e ''GET'' u of
                  Inl err \<Rightarrow> (Inl err, w)
                | Inr req \<Rightarrow>
                    RequestJSON decode (req\<lparr>Header := getCriteoHeader (AccessToken s')\<rparr>) w)
      | None \<Rightarrow>
          (case NewRequest e ''GET'' u of
             Inl err \<Rightarrow> (Inl err, w)
           | Inr req \<Rightarrow> RequestJSON decode req w))"

subsection \<open>Profile resolution\<close>

text \<open>\<open>GetProfile\<close> returns the error (\<open>None\<close> is \<^verbatim>\<open>nil\<close>), the session and the world.\<close>

definition GetProfile ::
    "env \<Rightarrow> context \<Rightarrow> CriteoProvider \<Rightarrow> SessionState \<Rightarrow> world
      \<Rightarrow> error option \<times> SessionState \<times> world" where
  "GetProfile e ctx p s w =
     (if User s \<noteq> [] \<and> Email s \<noteq> [] then (None, s, w)
      else
        (case requestJSONWithContext e (tokenInfoJSON e) ctx (Some s) (ProfileURL p) w of
           (Inl err, w') \<Rightarrow> (Some err, s, w')
         | (Inr info, w') \<Rightarrow>
             (let s = s\<lparr>Email := tokenInfo_Email info\<rparr>;
                  s = s\<lparr>User := tokenInfo_User info\<rparr>
              in if Email s = [] then (Some ProfileIncomplete, s, w') else (None, s, w'))))"

text \<open>\<open>GetEmailAddress\<close> and \<open>GetUserName\<close> return the pair \<^verbatim>\<open>(string, error)\<close> of the source.\<close>

definition GetEmailAddress ::
    "env \<Rightarrow> context \<Rightarrow> CriteoProvider \<Rightarrow> SessionState \<Rightarrow> world
      \<Rightarrow> (string \<times> error option) \<times> SessionState \<times> world" where
  "GetEmailAddress e ctx p s w =
     (case GetProfile e ctx p s w of (err, s', w') \<Rightarrow> ((Email s', err), s', w'))"

definition GetUserName ::
    "env \<Rightarrow> context \<Rightarrow> CriteoProvider \<Rightarrow> SessionState \<Rightarrow> world
      \<Rightarrow> (string \<times> error option) \<times> SessionState \<times> world" where
  "GetUserName e ctx p s w =
     (case GetProfile e ctx p s w of (err, s', w') \<Rightarrow> ((User s', err), s', w'))"

subsection \<open>Group authorization\<close>

definition getExtendedProfile ::
    "env \<Rightarrow> CriteoProvider \<Rightarrow> string \<Rightarrow> world \<Rightarrow> (error + criteoProfile) \<times> world" where
  "getExtendedProfile e p dn w =
     (let u = IdentityURL p;
          u = u\<lparr>Path := Path u @ dn\<rparr>
      in case requestJSON e (profileJSON e) None u w of
           (Inl err, w') \<Rightarrow> (Inl err, w')
         | (Inr entry, w') \<Rightarrow>
             (let u = u\<lparr>Path := Path u @ ''/groups''\<rparr>
              in case requestJSON e (groupsJSON e) None u w' of
                   (Inl err, w'') \<Rightarrow> (Inl err, w'')
                 | (Inr gs, w'') \<Rightarrow>
                     (Inr \<lparr>profile = entry, groups = \<lparr>Groups = gs\<rparr>\<rparr>, w'')))"

text \<open>
  The two loops of \<open>userInGroup\<close>: the inner one runs over the allow-list for one
  membership name, the outer one over the memberships; both stop at the first match.
\<close>

fun matchesAny :: "string \<Rightarrow> string list \<Rightarrow> bool" where
  "matchesAny ugName [] = False"
| "matchesAny ugName (g # gs) = (if ugName = g then True else matchesAny ugName gs)"

fun anyGroupMatches :: "groupInfo list \<Rightarrow> string list \<Rightarrow> bool" where
  "anyGroupMatches [] allowed = False"
| "anyGroupMatches (ug # ugs) allowed =
     (if matchesAny (Name ug) allowed then True else anyGroupMatches ugs allowed)"

definition userInGroup ::
    "env \<Rightarrow> CriteoProvider \<Rightarrow> string list \<Rightarrow> SessionState \<Rightarrow> world \<Rightarrow> bool \<times> world" where
  "userInGroup e p allowed s w =
     (case getExtendedProfile e p (User s) w of
        (Inl err, w') \<Rightarrow> (False, w'\<lparr>logged := logged w' @ [err]\<rparr>)
      | (Inr prof, w') \<Rightarrow> (anyGroupMatches (Groups (groups prof)) allowed, w'))"

definition ValidateGroup ::
    "env \<Rightarrow> CriteoProvider \<Rightarrow> SessionState \<Rightarrow> world \<Rightarrow> bool \<times> world" where
  "ValidateGroup e p s w = userInGroup e p (GroupValidator p) s w"

subsection \<open>Refresh\<close>

text \<open>
  The middle disjunct of the guard,
  \<^verbatim>\<open>s.ExpiresOn != nil && s.ExpiresOn.After(time.Now())\<close>: the clock is read only when an
  expiry is set.
\<close>

definition expiresInFuture :: "env \<Rightarrow> SessionState \<Rightarrow> world \<Rightarrow> bool \<times> world" where
  "expiresInFuture e s w =
     (case ExpiresOn s of
        None \<Rightarrow> (False, w)
      | Some t \<Rightarrow> (case time_Now e w of (now, w') \<Rightarrow> (After t now, w')))"

text \<open>
  \<open>RefreshSessionIfNeeded\<close> returns the pair \<^verbatim>\<open>(bool, error)\<close> of the source, the session
  and the world.
\<close>

definition RefreshSessionIfNeeded ::
    "env \<Rightarrow> context \<Rightarrow> CriteoProvider \<Rightarrow> SessionState option \<Rightarrow> world
      \<Rightarrow> (bool \<times> error option) \<times> SessionState option \<times> world" where
  "RefreshSessionIfNeeded e ctx p so w =
     (case so of
        None \<Rightarrow> ((False, None), None, w)
      | Some s \<Rightarrow>
          (case expiresInFuture e s w of
             (future, w1) \<Rightarrow>
               if future \<or> RefreshToken s = [] then ((False, None), Some s, w1)
               else
                 (case ValidateGroup e p s w1 of
                    (ok, w2) \<Rightarrow>
                      if \<not> ok then ((False, Some (GroupMembershipLost (Email s))), Some s, w2)
                      else
                        (case time_Now e w2 of
                           (now, w3) \<Rightarrow>
                             (let expires = Truncate (Add now Second) Second;
                                  origExpiration = ExpiresOn s;
                                  s = s\<lparr>ExpiresOn := Some expires\<rparr>;
                                  w4 = w3\<lparr>printed := printed w3 @ [(s, origExpiration)]\<rparr>
                              in ((False, None), Some s, w4))))))"

subsection \<open>A sample deployment\<close>

text \<open>
  Concrete values on which the theorems below are exercised: a provider configured for
  the allow-list \<open>[''ops'']\<close>, a session, and collaborators that accept every URL, answer
  every request with fixed values, and report \<open>Cancelled\<close> for a request bound to a
  cancelled context.
\<close>

definition noURL :: URL where
  "noURL = \<lparr>Scheme = [], Host = [], Path = [], RawQuery = []\<rparr>"

definition example_provider :: CriteoProvider where
  "example_provider =
     Configure
       (NewCriteoProvider \<lparr>ProviderName = [], Scope = [], LoginURL = noURL, RedeemURL = noURL,
          ProfileURL = noURL, ValidateURL = noURL\<rparr>)
       ''sso.example.org'' ''identity.example.org'' [''ops'']"

definition obeying :: "error + 'a \<Rightarrow> request list \<Rightarrow> request \<Rightarrow> error + 'a" where
  "obeying answer h r = (if Ctx r = Supplied True then Inl Cancelled else answer)"

definition example_env ::
    "error + tokenInfo \<Rightarrow> error + profileResponse \<Rightarrow> error + groupInfo list \<Rightarrow> env" where
  "example_env ti pr gr =
     \<lparr>NewRequestErr = (\<lambda>u. None), tokenInfoJSON = obeying ti, profileJSON = obeying pr,
      groupsJSON = obeying gr, clock = (\<lambda>n. 5000000123 + int n)\<rparr>"

definition quiet :: world where
  "quiet = \<lparr>sent = [], ticks = 0, logged = [], printed = []\<rparr>"

definition alice :: SessionState where
  "alice = \<lparr>AccessToken = ''tok'', RefreshToken = ''ref'', Email = ''alice@example.org'',
     User = ''uid=alice'', ExpiresOn = Some 4000000000\<rparr>"

definition alice_info :: tokenInfo where
  "alice_info = \<lparr>tokenInfo_Email = ''alice@example.org'', tokenInfo_User = ''uid=alice''\<rparr>"

definition alice_entry :: profileResponse where
  "alice_entry = \<lparr>Cn = ''alice'', Dn = ''uid=alice''\<rparr>"

definition eng_ops :: "groupInfo list" where
  "eng_ops = [\<lparr>Name = ''eng''\<rparr>, \<lparr>Name = ''ops''\<rparr>]"

definition entry_url :: URL where
  "entry_url = \<lparr>Scheme = ''http'', Host = ''identity.example.org'', Path = ''/user/uid=alice'',
     RawQuery = []\<rparr>"

definition groups_url :: URL where
  "groups_url = \<lparr>Scheme = ''http'', Host = ''identity.example.org'',
     Path = ''/user/uid=alice/groups'', RawQuery = []\<rparr>"

section \<open>Properties\<close>

subsection \<open>Auxiliary facts\<close>

lemmas request_defs = requestJSON_def requestJSONWithContext_def NewRequest_def
  NewRequestWithContext_def RequestJSON_def

lemmas example_defs = example_provider_def example_env_def quiet_def alice_def alice_info_def
  alice_entry_def eng_ops_def entry_url_def groups_url_def noURL_def obeying_def Configure_def
  NewCriteoProvider_def String_is_empty_def ProviderData.extend_def CriteoProvider.fields_def

lemmas run_defs = request_defs getExtendedProfile_def userInGroup_def ValidateGroup_def
  GetProfile_def RefreshSessionIfNeeded_def expiresInFuture_def time_Now_def getCriteoHeader_def
  Set_def After_def Add_def Truncate_def Second_def Let_def

text \<open>The group check reads no clock and prints nothing; it only sends and logs.\<close>

lemma getExtendedProfile_ticks:
  "getExtendedProfile e p dn (w\<lparr>ticks := n\<rparr>) =
     (fst (getExtendedProfile e p dn w), (snd (getExtendedProfile e p dn w))\<lparr>ticks := n\<rparr>)"
  by (simp add: getExtendedProfile_def request_defs Let_def
        split: option.splits sum.splits prod.splits)

lemma userInGroup_ticks:
  "userInGroup e p allowed s (w\<lparr>ticks := n\<rparr>) =
     (fst (userInGroup e p allowed s w), (snd (userInGroup e p allowed s w))\<lparr>ticks := n\<rparr>)"
  by (simp add: userInGroup_def getExtendedProfile_ticks split: sum.splits prod.splits)

lemma getExtendedProfile_keeps:
  "ticks (snd (getExtendedProfile e p dn w)) = ticks w
   \<and> logged (snd (getExtendedProfile e p dn w)) = logged w
   \<and> printed (snd (getExtendedProfile e p dn w)) = printed w"
  by (simp add: getExtendedProfile_def request_defs Let_def
        split: option.splits sum.splits prod.splits)

lemma userInGroup_keeps:
  "ticks (snd (userInGroup e p allowed s w)) = ticks w
   \<and> printed (snd (userInGroup e p allowed s w)) = printed w"
  using getExtendedProfile_keeps [of e p "User s" w]
  by (auto simp: userInGroup_def split: sum.splits prod.splits)

lemma ValidateGroup_ticks:
  "ValidateGroup e p s (w\<lparr>ticks := n\<rparr>) =
     (fst (ValidateGroup e p s w), (snd (ValidateGroup e p s w))\<lparr>ticks := n\<rparr>)"
  by (simp add: ValidateGroup_def userInGroup_ticks)

lemma ValidateGroup_keeps:
  "ticks (snd (ValidateGroup e p s w)) = ticks w
   \<and> printed (snd (ValidateGroup e p s w)) = printed w"
  by (simp add: ValidateGroup_def userInGroup_keeps)

text \<open>The guard of the refresh when the expiry is unset or not after the clock reading.\<close>

lemma expiresInFuture_due:
  assumes "case ExpiresOn s of None \<Rightarrow> True | Some t \<Rightarrow> t \<le> clock e (ticks w)"
  shows "expiresInFuture e s w =
           (False, case ExpiresOn s of None \<Rightarrow> w | Some t \<Rightarrow> w\<lparr>ticks := Suc (ticks w)\<rparr>)"
  using assms by (simp add: expiresInFuture_def time_Now_def After_def split: option.splits)

lemma ValidateGroup_after_guard:
  "ValidateGroup e p s (case ExpiresOn s of None \<Rightarrow> w | Some t \<Rightarrow> w\<lparr>ticks := Suc (ticks w)\<rparr>) =
     (fst (ValidateGroup e p s w),
      case ExpiresOn s of None \<Rightarrow> snd (ValidateGroup e p s w)
      | Some t \<Rightarrow> (snd (ValidateGroup e p s w))\<lparr>ticks := Suc (ticks w)\<rparr>)"
  by (simp add: ValidateGroup_ticks split: option.splits)

text \<open>The two loops decide whether the two lists have a name in common.\<close>

lemma matchesAny_iff: "matchesAny n allowed \<longleftrightarrow> n \<in> set allowed"
  by (induction allowed) auto

lemma anyGroupMatches_iff:
  "anyGroupMatches ugs allowed \<longleftrightarrow> (\<exists>ug \<in> set ugs. \<exists>g \<in> set allowed. Name ug = g)"
  by (induction ugs) (auto simp: matchesAny_iff)

text \<open>Adding a second and rounding down to the second lands in the next whole second.\<close>

lemma Truncate_Second:
  "Truncate (Add now Second) Second mod Second = 0
   \<and> now < Truncate (Add now Second) Second
   \<and> Truncate (Add now Second) Second \<le> now + Second"
proof -
  have pos: "(0::int) < 1000000000" by simp
  have lo: "0 \<le> (now + 1000000000) mod 1000000000"
    using pos by (rule pos_mod_sign)
  have hi: "(now + 1000000000) mod 1000000000 < 1000000000"
    using pos by (rule pos_mod_bound)
  have "(x - x mod 1000000000) mod 1000000000 = 0" for x :: int
    by (simp add: minus_mod_eq_mult_div)
  then have m: "(now + 1000000000 - (now + 1000000000) mod 1000000000) mod 1000000000 = 0" .
  show ?thesis
    using lo hi m by (simp only: Truncate_def Add_def Second_def) simp
qed

text \<open>The requests of the two-step directory lookup, for any provider.\<close>

lemma getExtendedProfile_sent:
  "sent (snd (getExtendedProfile e p dn w)) =
     (let u1 = (IdentityURL p)\<lparr>Path := Path (IdentityURL p) @ dn\<rparr>;
          u2 = u1\<lparr>Path := Path u1 @ ''/groups''\<rparr>;
          r1 = \<lparr>Method = ''GET'', Url = u1, Header = Map.empty, Ctx = Background\<rparr>;
          r2 = \<lparr>Method = ''GET'', Url = u2, Header = Map.empty, Ctx = Background\<rparr>
      in sent w @
           (case NewRequestErr e u1 of
              Some err \<Rightarrow> []
            | None \<Rightarrow>
                (case profileJSON e (sent w) r1 of
                   Inl err \<Rightarrow> [r1]
                 | Inr entry \<Rightarrow>
                     (case NewRequestErr e u2 of
                        Some err \<Rightarrow> [r1]
                      | None \<Rightarrow> [r1, r2]))))"
  by (simp add: getExtendedProfile_def request_defs Let_def
        split: option.splits sum.splits prod.splits)

lemma userInGroup_sent:
  "sent (snd (userInGroup e p allowed s w)) = sent (snd (getExtendedProfile e p (User s) w))"
  by (auto simp: userInGroup_def split: sum.splits prod.splits)

subsection \<open>Group authorization\<close>

text \<open>
  C1. Fail-closed. Let \<open>u1\<close> be the directory URL with the user key appended to its path
  and \<open>u2\<close> the same with \<open>/groups\<close> appended. If the first round-trip returns an error,
  or the first succeeds and the second returns an error, then \<open>userInGroup\<close> returns
  false; its result is a boolean, so the error does not reach the caller: it is written
  to the log.
\<close>

theorem userInGroup_fail_closed:
  assumes "u1 = (IdentityURL p)\<lparr>Path := Path (IdentityURL p) @ User s\<rparr>"
    and "u2 = u1\<lparr>Path := Path u1 @ ''/groups''\<rparr>"
    and "fst (requestJSON e (profileJSON e) None u1 w) = Inl err
         \<or> (\<exists>entry. requestJSON e (profileJSON e) None u1 w = (Inr entry, w1)
              \<and> fst (requestJSON e (groupsJSON e) None u2 w1) = Inl err)"
  shows "fst (userInGroup e p allowed s w) = False
         \<and> logged (snd (userInGroup e p allowed s w)) = logged w @ [err]"
  using assms getExtendedProfile_keeps [of e p "User s" w]
  by (auto simp: userInGroup_def getExtendedProfile_def Let_def split: sum.splits prod.splits)

theorem userInGroup_fail_closed_witness:
  "fst (requestJSON (example_env (Inr alice_info) (Inr alice_entry) (Inl DecodeError))
          (profileJSON (example_env (Inr alice_info) (Inr alice_entry) (Inl DecodeError))) None
          entry_url quiet) = Inr alice_entry
   \<and> fst (requestJSON (example_env (Inr alice_info) (Inr alice_entry) (Inl DecodeError))
          (groupsJSON (example_env (Inr alice_info) (Inr alice_entry) (Inl DecodeError))) None
          groups_url
          (snd (requestJSON (example_env (Inr alice_info) (Inr alice_entry) (Inl DecodeError))
            (profileJSON (example_env (Inr alice_info) (Inr alice_entry) (Inl DecodeError))) None
            entry_url quiet))) = Inl DecodeError
   \<and> fst (userInGroup (example_env (Inr alice_info) (Inr alice_entry) (Inl DecodeError))
          example_provider [''ops''] alice quiet) = False
   \<and> logged (snd (userInGroup (example_env (Inr alice_info) (Inr alice_entry) (Inl DecodeError))
          example_provider [''ops''] alice quiet)) = [DecodeError]"
proof -
  let ?e = "example_env (Inr alice_info) (Inr alice_entry) (Inl DecodeError)"
  let ?w1 = "snd (requestJSON ?e (profileJSON ?e) None entry_url quiet)"
  have u1: "entry_url =
      (IdentityURL example_provider)\<lparr>Path := Path (IdentityURL example_provider) @ User alice\<rparr>"
    by (simp add: example_defs Let_def)
  have u2: "groups_url = entry_url\<lparr>Path := Path entry_url @ ''/groups''\<rparr>"
    by (simp add: example_defs)
  have f1: "fst (requestJSON ?e (profileJSON ?e) None entry_url quiet) = Inr alice_entry"
    by (simp add: example_defs request_defs)
  then have r1: "requestJSON ?e (profileJSON ?e) None entry_url quiet = (Inr alice_entry, ?w1)"
    by (simp add: prod_eq_iff)
  have r2: "fst (requestJSON ?e (groupsJSON ?e) None groups_url ?w1) = Inl DecodeError"
    by (simp add: example_defs request_defs)
  have h: "fst (requestJSON ?e (profileJSON ?e) None entry_url quiet) = Inl DecodeError
         \<or> (\<exists>entry. requestJSON ?e (profileJSON ?e) None entry_url quiet = (Inr entry, ?w1)
              \<and> fst (requestJSON ?e (groupsJSON ?e) None groups_url ?w1) = Inl DecodeError)"
    using r1 r2 by blast
  have lq: "logged quiet = []"
    by (simp add: quiet_def)
  have "fst (userInGroup ?e example_provider [''ops''] alice quiet) = False
        \<and> logged (snd (userInGroup ?e example_provider [''ops''] alice quiet)) = [DecodeError]"
    using userInGroup_fail_closed [OF u1 u2 h, of "[''ops'']"] by (simp add: lq)
  with f1 r2 show ?thesis
    by blast
qed

text \<open>
  C2. Exact matching. When both round-trips succeed and give the profile \<open>prof\<close>,
  \<open>userInGroup\<close> returns true exactly when some membership name of \<open>prof\<close> is equal, as a
  string, to some entry of the allow-list. The right-hand side speaks of the two lists
  only through their sets of elements, so the order of neither list matters.
\<close>

theorem userInGroup_iff_exact_match:
  assumes "getExtendedProfile e p (User s) w = (Inr prof, w')"
  shows "fst (userInGroup e p allowed s w)
           \<longleftrightarrow> (\<exists>ug \<in> set (Groups (groups prof)). \<exists>g \<in> set allowed. Name ug = g)"
  using assms by (simp add: userInGroup_def anyGroupMatches_iff)

theorem userInGroup_iff_exact_match_witness:
  "getExtendedProfile (example_env (Inr alice_info) (Inr alice_entry) (Inr eng_ops))
       example_provider (User alice) quiet =
     (Inr \<lparr>profile = alice_entry, groups = \<lparr>Groups = eng_ops\<rparr>\<rparr>,
      snd (getExtendedProfile (example_env (Inr alice_info) (Inr alice_entry) (Inr eng_ops))
        example_provider (User alice) quiet))
   \<and> fst (userInGroup (example_env (Inr alice_info) (Inr alice_entry) (Inr eng_ops))
          example_provider [''ops''] alice quiet)
   \<and> \<not> fst (userInGroup (example_env (Inr alice_info) (Inr alice_entry) (Inr eng_ops))
          example_provider [''Ops''] alice quiet)"
proof -
  let ?e = "example_env (Inr alice_info) (Inr alice_entry) (Inr eng_ops)"
  have h: "getExtendedProfile ?e example_provider (User alice) quiet =
     (Inr \<lparr>profile = alice_entry, groups = \<lparr>Groups = eng_ops\<rparr>\<rparr>,
      snd (getExtendedProfile ?e example_provider (User alice) quiet))"
    by (simp add: example_defs getExtendedProfile_def request_defs Let_def)
  show ?thesis
    using h userInGroup_iff_exact_match [OF h, of "[''ops'']"]
      userInGroup_iff_exact_match [OF h, of "[''Ops'']"]
    by (simp add: eng_ops_def)
qed

text \<open>
  C8 (as amended). The requests of the group check for a provider configured with
  \<open>identityHost\<close>: it sends at most two GET requests, in this order. The first goes to
  \<open>http://identityHost/user/<dn>\<close>; the second, to \<open>http://identityHost/user/<dn>/groups\<close>,
  is sent only when the first round-trip has succeeded. A request whose URL
  \<^verbatim>\<open>http.NewRequest\<close> rejects is not sent. Each request has an empty header, so none has an
  \<open>Authorization\<close> entry.
\<close>

theorem ValidateGroup_requests:
  "sent (snd (ValidateGroup e (Configure pd ssoHost identityHost allowed) s w)) =
     (let u1 = \<lparr>Scheme = ''http'', Host = identityHost, Path = ''/user/'' @ User s, RawQuery = []\<rparr>;
          u2 = \<lparr>Scheme = ''http'', Host = identityHost, Path = ''/user/'' @ User s @ ''/groups'',
                RawQuery = []\<rparr>;
          r1 = \<lparr>Method = ''GET'', Url = u1, Header = Map.empty, Ctx = Background\<rparr>;
          r2 = \<lparr>Method = ''GET'', Url = u2, Header = Map.empty, Ctx = Background\<rparr>
      in sent w @
           (case NewRequestErr e u1 of
              Some err \<Rightarrow> []
            | None \<Rightarrow>
                (case profileJSON e (sent w) r1 of
                   Inl err \<Rightarrow> [r1]
                 | Inr entry \<Rightarrow>
                     (case NewRequestErr e u2 of
                        Some err \<Rightarrow> [r1]
                      | None \<Rightarrow> [r1, r2]))))"
proof -
  have "IdentityURL (Configure pd ssoHost identityHost allowed) =
          \<lparr>Scheme = ''http'', Host = identityHost, Path = ''/user/'', RawQuery = []\<rparr>"
    by (simp add: Configure_def Let_def ProviderData.extend_def CriteoProvider.fields_def)
  then show ?thesis
    by (simp add: ValidateGroup_def userInGroup_sent getExtendedProfile_sent Let_def
          split: option.splits sum.splits)
qed

text \<open>With both round-trips answered, the sample deployment sends exactly the two requests.\<close>

theorem ValidateGroup_requests_witness:
  "sent (snd (ValidateGroup (example_env (Inr alice_info) (Inr alice_entry) (Inr eng_ops))
       example_provider alice quiet)) =
     [\<lparr>Method = ''GET'', Url = entry_url, Header = Map.empty, Ctx = Background\<rparr>,
      \<lparr>Method = ''GET'', Url = groups_url, Header = Map.empty, Ctx = Background\<rparr>]"
  using ValidateGroup_requests [of "example_env (Inr alice_info) (Inr alice_entry) (Inr eng_ops)"
      "NewCriteoProvider \<lparr>ProviderName = [], Scope = [], LoginURL = noURL, RedeemURL = noURL,
          ProfileURL = noURL, ValidateURL = noURL\<rparr>"
      "''sso.example.org''" "''identity.example.org''" "[''ops'']" alice quiet]
  by (simp add: example_provider_def example_env_def obeying_def quiet_def alice_def
        entry_url_def groups_url_def Let_def)

text \<open>
  C8 as stated fails: when the directory does not answer the first request, the check
  sends that request and no second one.
\<close>

theorem ValidateGroup_single_request_counterexample:
  "sent (snd (ValidateGroup (example_env (Inr alice_info) (Inl RemoteUnavailable) (Inr eng_ops))
       example_provider alice quiet)) =
     [\<lparr>Method = ''GET'', Url = entry_url, Header = Map.empty, Ctx = Background\<rparr>]
   \<and> length (sent (snd (ValidateGroup
         (example_env (Inr alice_info) (Inl RemoteUnavailable) (Inr eng_ops))
         example_provider alice quiet))) \<noteq> 2"
  by (simp add: example_defs run_defs)

subsection \<open>Refresh\<close>

text \<open>
  C3. Refresh enforcement. The session has a refresh token, and its expiry is unset or
  not after the reading of the clock. If the group check says that the user is not
  authorized, \<open>RefreshSessionIfNeeded\<close> returns false with the error
  \<open>GroupMembershipLost\<close> (carrying the session's email), and the session, its expiry
  included, is as before.
\<close>

theorem RefreshSessionIfNeeded_membership_lost:
  assumes "case ExpiresOn s of None \<Rightarrow> True | Some t \<Rightarrow> t \<le> clock e (ticks w)"
    and "RefreshToken s \<noteq> []"
    and "\<not> fst (ValidateGroup e p s w)"
  shows "fst (RefreshSessionIfNeeded e ctx p (Some s) w) =
           (False, Some (GroupMembershipLost (Email s)))
         \<and> fst (snd (RefreshSessionIfNeeded e ctx p (Some s) w)) = Some s"
  using assms
  by (simp add: RefreshSessionIfNeeded_def expiresInFuture_due ValidateGroup_after_guard
        split: prod.splits)

theorem RefreshSessionIfNeeded_membership_lost_witness:
  "ExpiresOn alice = Some 4000000000
   \<and> 4000000000 \<le> clock (example_env (Inr alice_info) (Inr alice_entry) (Inr [\<lparr>Name = ''eng''\<rparr>]))
        (ticks quiet)
   \<and> RefreshToken alice \<noteq> []
   \<and> \<not> fst (ValidateGroup (example_env (Inr alice_info) (Inr alice_entry) (Inr [\<lparr>Name = ''eng''\<rparr>]))
          example_provider alice quiet)
   \<and> fst (RefreshSessionIfNeeded
          (example_env (Inr alice_info) (Inr alice_entry) (Inr [\<lparr>Name = ''eng''\<rparr>]))
          (Supplied False) example_provider (Some alice) quiet) =
        (False, Some (GroupMembershipLost ''alice@example.org''))
   \<and> fst (snd (RefreshSessionIfNeeded
          (example_env (Inr alice_info) (Inr alice_entry) (Inr [\<lparr>Name = ''eng''\<rparr>]))
          (Supplied False) example_provider (Some alice) quiet)) = Some alice"
proof -
  let ?e = "example_env (Inr alice_info) (Inr alice_entry) (Inr [\<lparr>Name = ''eng''\<rparr>])"
  have x: "ExpiresOn alice = Some 4000000000"
    by (simp add: alice_def)
  have c: "4000000000 \<le> clock ?e (ticks quiet)"
    by (simp add: example_env_def quiet_def)
  have due: "case ExpiresOn alice of None \<Rightarrow> True | Some t \<Rightarrow> t \<le> clock ?e (ticks quiet)"
    using c by (simp add: x)
  have tok: "RefreshToken alice \<noteq> []"
    by (simp add: alice_def)
  have out: "\<not> fst (ValidateGroup ?e example_provider alice quiet)"
    by (simp add: example_defs run_defs)
  have m: "Email alice = ''alice@example.org''"
    by (simp add: alice_def)
  have "fst (RefreshSessionIfNeeded ?e (Supplied False) example_provider (Some alice) quiet) =
           (False, Some (GroupMembershipLost ''alice@example.org''))
         \<and> fst (snd (RefreshSessionIfNeeded ?e (Supplied False) example_provider (Some alice)
              quiet)) = Some alice"
    using RefreshSessionIfNeeded_membership_lost [OF due tok out, of "Supplied False"]
    by (simp only: m)
  with x c tok out show ?thesis
    by blast
qed

text \<open>
  C4. Refresh heartbeat. Under the same conditions, if the group check says that the
  user is authorized, \<open>RefreshSessionIfNeeded\<close> returns false with no error. The session
  differs from the one before only in its expiry, which is the reading \<open>now\<close> of the
  clock taken after the group check, plus one second, rounded down to the second: a
  whole second, later than \<open>now\<close> and at most one second later. The access and refresh
  tokens are those of before, and the only requests sent are those of the group check.
\<close>

theorem RefreshSessionIfNeeded_heartbeat:
  assumes "case ExpiresOn s of None \<Rightarrow> True | Some t \<Rightarrow> t \<le> clock e (ticks w)"
    and "RefreshToken s \<noteq> []"
    and "fst (ValidateGroup e p s w)"
    and "now = clock e (case ExpiresOn s of None \<Rightarrow> ticks w | Some t \<Rightarrow> Suc (ticks w))"
    and "expires = Truncate (Add now Second) Second"
  shows "fst (RefreshSessionIfNeeded e ctx p (Some s) w) = (False, None)
         \<and> fst (snd (RefreshSessionIfNeeded e ctx p (Some s) w)) =
             Some (s\<lparr>ExpiresOn := Some expires\<rparr>)
         \<and> sent (snd (snd (RefreshSessionIfNeeded e ctx p (Some s) w))) =
             sent (snd (ValidateGroup e p s w))
         \<and> expires mod Second = 0 \<and> now < expires \<and> expires \<le> now + Second"
  using assms ValidateGroup_keeps [of e p s w] Truncate_Second [of now]
  by (simp add: RefreshSessionIfNeeded_def expiresInFuture_due ValidateGroup_after_guard
        time_Now_def Let_def split: prod.splits option.splits)

theorem RefreshSessionIfNeeded_heartbeat_witness:
  "ExpiresOn alice = Some 4000000000
   \<and> 4000000000 \<le> clock (example_env (Inr alice_info) (Inr alice_entry) (Inr eng_ops)) (ticks quiet)
   \<and> RefreshToken alice \<noteq> []
   \<and> fst (ValidateGroup (example_env (Inr alice_info) (Inr alice_entry) (Inr eng_ops))
          example_provider alice quiet)
   \<and> clock (example_env (Inr alice_info) (Inr alice_entry) (Inr eng_ops)) (Suc (ticks quiet)) =
        5000000124
   \<and> Truncate (Add 5000000124 Second) Second = 6000000000
   \<and> fst (RefreshSessionIfNeeded (example_env (Inr alice_info) (Inr alice_entry) (Inr eng_ops))
          (Supplied False) example_provider (Some alice) quiet) = (False, None)
   \<and> fst (snd (RefreshSessionIfNeeded (example_env (Inr alice_info) (Inr alice_entry) (Inr eng_ops))
          (Supplied False) example_provider (Some alice) quiet)) =
        Some (alice\<lparr>ExpiresOn := Some 6000000000\<rparr>)"
proof -
  let ?e = "example_env (Inr alice_info) (Inr alice_entry) (Inr eng_ops)"
  have x: "ExpiresOn alice = Some 4000000000"
    by (simp add: alice_def)
  have c: "4000000000 \<le> clock ?e (ticks quiet)"
    by (simp add: example_env_def quiet_def)
  have due: "case ExpiresOn alice of None \<Rightarrow> True | Some t \<Rightarrow> t \<le> clock ?e (ticks quiet)"
    using c by (simp add: x)
  have tok: "RefreshToken alice \<noteq> []"
    by (simp add: alice_def)
  have ok: "fst (ValidateGroup ?e example_provider alice quiet)"
    by (simp add: example_defs run_defs)
  have n: "clock ?e (Suc (ticks quiet)) = 5000000124"
    by (simp add: example_env_def quiet_def)
  then have now: "5000000124 =
      clock ?e (case ExpiresOn alice of None \<Rightarrow> ticks quiet | Some t \<Rightarrow> Suc (ticks quiet))"
    by (simp add: x)
  have t: "Truncate (Add 5000000124 Second) Second = 6000000000"
    by (simp add: Truncate_def Add_def Second_def)
  then have expires: "6000000000 = Truncate (Add 5000000124 Second) Second"
    by simp
  have "fst (RefreshSessionIfNeeded ?e (Supplied False) example_provider (Some alice) quiet) =
          (False, None)
        \<and> fst (snd (RefreshSessionIfNeeded ?e (Supplied False) example_provider (Some alice)
             quiet)) = Some (alice\<lparr>ExpiresOn := Some 6000000000\<rparr>)"
    using RefreshSessionIfNeeded_heartbeat [OF due tok ok now expires, of "Supplied False"]
    by blast
  with x c tok ok n t show ?thesis
    by blast
qed

text \<open>
  C5. Refresh skip. If there is no session, or its refresh token is empty, or its expiry
  is set and after the reading of the clock, \<open>RefreshSessionIfNeeded\<close> returns false
  with no error, the session is as before, no request has been sent, and nothing has
  been logged or printed.
\<close>

theorem RefreshSessionIfNeeded_skip:
  assumes "so = None
           \<or> (\<exists>s. so = Some s
                \<and> (RefreshToken s = [] \<or> (\<exists>t. ExpiresOn s = Some t \<and> clock e (ticks w) < t)))"
  shows "fst (RefreshSessionIfNeeded e ctx p so w) = (False, None)
         \<and> fst (snd (RefreshSessionIfNeeded e ctx p so w)) = so
         \<and> sent (snd (snd (RefreshSessionIfNeeded e ctx p so w))) = sent w
         \<and> logged (snd (snd (RefreshSessionIfNeeded e ctx p so w))) = logged w
         \<and> printed (snd (snd (RefreshSessionIfNeeded e ctx p so w))) = printed w"
  using assms
  by (auto simp: RefreshSessionIfNeeded_def expiresInFuture_def time_Now_def After_def
        split: prod.splits option.splits)

theorem RefreshSessionIfNeeded_skip_witness:
  "ExpiresOn (alice\<lparr>ExpiresOn := Some 9000000000\<rparr>) = Some 9000000000
   \<and> clock (example_env (Inr alice_info) (Inr alice_entry) (Inr eng_ops)) (ticks quiet) < 9000000000
   \<and> fst (RefreshSessionIfNeeded (example_env (Inr alice_info) (Inr alice_entry) (Inr eng_ops))
          (Supplied False) example_provider (Some (alice\<lparr>ExpiresOn := Some 9000000000\<rparr>)) quiet) =
        (False, None)
   \<and> fst (snd (RefreshSessionIfNeeded (example_env (Inr alice_info) (Inr alice_entry) (Inr eng_ops))
          (Supplied False) example_provider (Some (alice\<lparr>ExpiresOn := Some 9000000000\<rparr>)) quiet)) =
        Some (alice\<lparr>ExpiresOn := Some 9000000000\<rparr>)
   \<and> sent (snd (snd (RefreshSessionIfNeeded
          (example_env (Inr alice_info) (Inr alice_entry) (Inr eng_ops))
          (Supplied False) example_provider (Some (alice\<lparr>ExpiresOn := Some 9000000000\<rparr>)) quiet))) =
        []"
proof -
  let ?e = "example_env (Inr alice_info) (Inr alice_entry) (Inr eng_ops)"
  let ?s = "alice\<lparr>ExpiresOn := Some 9000000000\<rparr>"
  have x: "ExpiresOn ?s = Some 9000000000"
    by simp
  have c: "clock ?e (ticks quiet) < 9000000000"
    by (simp add: example_env_def quiet_def)
  have h: "Some ?s = None
           \<or> (\<exists>s. Some ?s = Some s
                \<and> (RefreshToken s = []
                     \<or> (\<exists>t. ExpiresOn s = Some t \<and> clock ?e (ticks quiet) < t)))"
    using x c by blast
  have q: "sent quiet = []"
    by (simp add: quiet_def)
  have "fst (RefreshSessionIfNeeded ?e (Supplied False) example_provider (Some ?s) quiet) =
          (False, None)
        \<and> fst (snd (RefreshSessionIfNeeded ?e (Supplied False) example_provider (Some ?s) quiet)) =
            Some ?s
        \<and> sent (snd (snd (RefreshSessionIfNeeded ?e (Supplied False) example_provider (Some ?s)
            quiet))) = []"
    using RefreshSessionIfNeeded_skip [OF h, of "Supplied False" example_provider]
    by (simp only: q)
  with x c show ?thesis
    by blast
qed

subsection \<open>Profile resolution\<close>

text \<open>
  C6. A session whose email and user key are both non-empty is returned by profile
  resolution as it is, with no error, and the world is the same afterwards: no request
  has been sent. So a second call on such a session sends nothing.
\<close>

theorem GetProfile_resolved_noop:
  assumes "User s \<noteq> []" and "Email s \<noteq> []"
  shows "GetProfile e ctx p s w = (None, s, w)"
  using assms by (simp add: GetProfile_def)

theorem GetProfile_resolved_noop_witness:
  "User alice \<noteq> [] \<and> Email alice \<noteq> []
   \<and> GetProfile (example_env (Inr alice_info) (Inr alice_entry) (Inr eng_ops))
         (Supplied False) example_provider alice quiet = (None, alice, quiet)"
proof -
  have u: "User alice \<noteq> []" and m: "Email alice \<noteq> []"
    by (simp_all add: alice_def)
  show ?thesis
    using u m GetProfile_resolved_noop [OF u m] by blast
qed

text \<open>
  C7. Missing-token guard. If the email or the user key of the session is empty and its
  access token is empty, profile resolution fails with \<open>MissingCredential\<close>; the session
  and the world are as before, so no request has been sent.
\<close>

theorem GetProfile_missing_token:
  assumes "User s = [] \<or> Email s = []" and "AccessToken s = []"
  shows "GetProfile e ctx p s w = (Some MissingCredential, s, w)"
  using assms by (auto simp: GetProfile_def requestJSONWithContext_def)

theorem GetProfile_missing_token_witness:
  "Email (alice\<lparr>AccessToken := [], Email := []\<rparr>) = []
   \<and> AccessToken (alice\<lparr>AccessToken := [], Email := []\<rparr>) = []
   \<and> GetProfile (example_env (Inr alice_info) (Inr alice_entry) (Inr eng_ops))
         (Supplied False) example_provider (alice\<lparr>AccessToken := [], Email := []\<rparr>) quiet =
       (Some MissingCredential, alice\<lparr>AccessToken := [], Email := []\<rparr>, quiet)"
proof -
  let ?s = "alice\<lparr>AccessToken := [], Email := []\<rparr>"
  have m: "Email ?s = []" and a: "AccessToken ?s = []"
    by simp_all
  from m have h: "User ?s = [] \<or> Email ?s = []" ..
  show ?thesis
    using m a GetProfile_missing_token [OF h a] by blast
qed

text \<open>
  C10. The failure with \<open>ProfileIncomplete\<close> is not atomic. If the email or the user key
  of the session is empty, the introspection call succeeds and the email it returns is
  empty, then profile resolution fails with \<open>ProfileIncomplete\<close>, and the session it
  leaves has the empty email and the user key of the response, whatever they were
  before.
\<close>

theorem GetProfile_incomplete_mutates_session:
  assumes "User s = [] \<or> Email s = []"
    and "requestJSONWithContext e (tokenInfoJSON e) ctx (Some s) (ProfileURL p) w = (Inr info, w')"
    and "tokenInfo_Email info = []"
  shows "GetProfile e ctx p s w =
           (Some ProfileIncomplete, s\<lparr>Email := [], User := tokenInfo_User info\<rparr>, w')"
  using assms by (auto simp: GetProfile_def)

theorem GetProfile_incomplete_mutates_session_witness:
  "User (alice\<lparr>User := []\<rparr>) = []
   \<and> fst (requestJSONWithContext
          (example_env (Inr \<lparr>tokenInfo_Email = [], tokenInfo_User = ''uid=bob''\<rparr>)
             (Inr alice_entry) (Inr eng_ops))
          (tokenInfoJSON (example_env (Inr \<lparr>tokenInfo_Email = [], tokenInfo_User = ''uid=bob''\<rparr>)
             (Inr alice_entry) (Inr eng_ops)))
          (Supplied False) (Some (alice\<lparr>User := []\<rparr>)) (ProfileURL example_provider) quiet) =
        Inr \<lparr>tokenInfo_Email = [], tokenInfo_User = ''uid=bob''\<rparr>
   \<and> fst (GetProfile
          (example_env (Inr \<lparr>tokenInfo_Email = [], tokenInfo_User = ''uid=bob''\<rparr>)
             (Inr alice_entry) (Inr eng_ops))
          (Supplied False) example_provider (alice\<lparr>User := []\<rparr>) quiet) = Some ProfileIncomplete
   \<and> fst (snd (GetProfile
          (example_env (Inr \<lparr>tokenInfo_Email = [], tokenInfo_User = ''uid=bob''\<rparr>)
             (Inr alice_entry) (Inr eng_ops))
          (Supplied False) example_provider (alice\<lparr>User := []\<rparr>) quiet)) =
        alice\<lparr>Email := [], User := ''uid=bob''\<rparr>
   \<and> alice\<lparr>Email := [], User := ''uid=bob''\<rparr> \<noteq> alice\<lparr>User := []\<rparr>"
proof -
  let ?i = "\<lparr>tokenInfo_Email = [], tokenInfo_User = ''uid=bob''\<rparr>"
  let ?e = "example_env (Inr ?i) (Inr alice_entry) (Inr eng_ops)"
  let ?s = "alice\<lparr>User := []\<rparr>"
  let ?call = "requestJSONWithContext ?e (tokenInfoJSON ?e) (Supplied False) (Some ?s)
                 (ProfileURL example_provider) quiet"
  have u: "User ?s = []"
    by simp
  then have h: "User ?s = [] \<or> Email ?s = []" ..
  have f: "fst ?call = Inr ?i"
    by (simp add: example_defs request_defs)
  then have r: "?call = (Inr ?i, snd ?call)"
    by (simp add: prod_eq_iff)
  have i: "tokenInfo_Email ?i = []"
    by simp
  have g: "GetProfile ?e (Supplied False) example_provider ?s quiet =
             (Some ProfileIncomplete, ?s\<lparr>Email := [], User := tokenInfo_User ?i\<rparr>, snd ?call)"
    using GetProfile_incomplete_mutates_session [OF h r i] .
  have g1: "fst (GetProfile ?e (Supplied False) example_provider ?s quiet) = Some ProfileIncomplete"
    by (simp only: g fst_conv)
  have g2: "fst (snd (GetProfile ?e (Supplied False) example_provider ?s quiet)) =
              alice\<lparr>Email := [], User := ''uid=bob''\<rparr>"
    by (simp only: g fst_conv snd_conv) simp
  have d: "alice\<lparr>Email := [], User := ''uid=bob''\<rparr> \<noteq> alice\<lparr>User := []\<rparr>"
    by (simp add: alice_def)
  from u f g1 g2 d show ?thesis
    by blast
qed

subsection \<open>Cancellation\<close>

text \<open>
  C9 (as amended). The introspection call of profile resolution runs under the context
  the caller supplies: with a transport that reports \<open>Cancelled\<close> for every request bound
  to a cancelled context, profile resolution under a cancelled context fails with
  \<open>Cancelled\<close> whenever it makes the call (the email or the user key is empty, the
  access token is not, and the URL is accepted); the request it has sent is bound to the
  caller's context and the session is as before. The directory round-trips do not run
  under the caller's context: for every session, the requests of the group check are
  bound to the background context, and for every input the result of
  \<open>RefreshSessionIfNeeded\<close>, which runs the group check, is the same for every context.
\<close>

theorem cancellation_reaches_introspection_only:
  "((\<forall>h r. Ctx r = Supplied True \<longrightarrow> tokenInfoJSON e h r = Inl Cancelled)
      \<and> (User s = [] \<or> Email s = []) \<and> AccessToken s \<noteq> []
      \<and> NewRequestErr e (ProfileURL p) = None
     \<longrightarrow> GetProfile e (Supplied True) p s w =
           (Some Cancelled, s,
            w\<lparr>sent := sent w @
               [\<lparr>Method = ''GET'', Url = ProfileURL p,
                  Header = getCriteoHeader (AccessToken s), Ctx = Supplied True\<rparr>]\<rparr>))
   \<and> RefreshSessionIfNeeded e ctx p so w' = RefreshSessionIfNeeded e Background p so w'
   \<and> (\<forall>r \<in> set (drop (length (sent w')) (sent (snd (ValidateGroup e p s' w')))).
         Ctx r = Background)"
proof (intro conjI impI)
  assume h: "(\<forall>h r. Ctx r = Supplied True \<longrightarrow> tokenInfoJSON e h r = Inl Cancelled)
      \<and> (User s = [] \<or> Email s = []) \<and> AccessToken s \<noteq> []
      \<and> NewRequestErr e (ProfileURL p) = None"
  let ?req = "\<lparr>Method = ''GET'', Url = ProfileURL p,
                Header = getCriteoHeader (AccessToken s), Ctx = Supplied True\<rparr>"
  from h have "tokenInfoJSON e (sent w) ?req = Inl Cancelled"
    by simp
  with h show "GetProfile e (Supplied True) p s w =
      (Some Cancelled, s, w\<lparr>sent := sent w @ [?req]\<rparr>)"
    by (auto simp: GetProfile_def request_defs)
next
  show "RefreshSessionIfNeeded e ctx p so w' = RefreshSessionIfNeeded e Background p so w'"
    by (simp add: RefreshSessionIfNeeded_def)
next
  show "\<forall>r \<in> set (drop (length (sent w')) (sent (snd (ValidateGroup e p s' w')))).
          Ctx r = Background"
    by (auto simp: ValidateGroup_def userInGroup_sent getExtendedProfile_sent Let_def
          split: option.splits sum.splits)
qed

theorem cancellation_reaches_introspection_only_witness:
  "tokenInfoJSON (example_env (Inr alice_info) (Inr alice_entry) (Inr eng_ops)) (sent quiet)
      \<lparr>Method = ''GET'', Url = ProfileURL example_provider,
         Header = getCriteoHeader (AccessToken (alice\<lparr>Email := []\<rparr>)), Ctx = Supplied True\<rparr> =
      Inl Cancelled
   \<and> Email (alice\<lparr>Email := []\<rparr>) = []
   \<and> AccessToken (alice\<lparr>Email := []\<rparr>) \<noteq> []
   \<and> NewRequestErr (example_env (Inr alice_info) (Inr alice_entry) (Inr eng_ops))
        (ProfileURL example_provider) = None
   \<and> fst (GetProfile (example_env (Inr alice_info) (Inr alice_entry) (Inr eng_ops))
          (Supplied True) example_provider (alice\<lparr>Email := []\<rparr>) quiet) = Some Cancelled
   \<and> fst (snd (GetProfile (example_env (Inr alice_info) (Inr alice_entry) (Inr eng_ops))
          (Supplied True) example_provider (alice\<lparr>Email := []\<rparr>) quiet)) = alice\<lparr>Email := []\<rparr>
   \<and> RefreshSessionIfNeeded (example_env (Inr alice_info) (Inr alice_entry) (Inr eng_ops))
        (Supplied True) example_provider (Some alice) quiet =
      RefreshSessionIfNeeded (example_env (Inr alice_info) (Inr alice_entry) (Inr eng_ops))
        Background example_provider (Some alice) quiet
   \<and> list_all (\<lambda>r. Ctx r = Background)
        (drop (length (sent quiet))
           (sent (snd (ValidateGroup (example_env (Inr alice_info) (Inr alice_entry) (Inr eng_ops))
              example_provider alice quiet))))
   \<and> length (sent (snd (ValidateGroup (example_env (Inr alice_info) (Inr alice_entry) (Inr eng_ops))
              example_provider alice quiet))) = 2"
proof -
  let ?e = "example_env (Inr alice_info) (Inr alice_entry) (Inr eng_ops)"
  let ?s = "alice\<lparr>Email := []\<rparr>"
  let ?req = "\<lparr>Method = ''GET'', Url = ProfileURL example_provider,
                Header = getCriteoHeader (AccessToken ?s), Ctx = Supplied True\<rparr>"
  have o: "\<forall>h r. Ctx r = Supplied True \<longrightarrow> tokenInfoJSON ?e h r = Inl Cancelled"
    by (simp add: example_env_def obeying_def)
  have m: "Email ?s = []"
    by simp
  have a: "AccessToken ?s \<noteq> []"
    by (simp add: alice_def)
  have n: "NewRequestErr ?e (ProfileURL example_provider) = None"
    by (simp add: example_env_def)
  note t = cancellation_reaches_introspection_only
    [of ?e ?s example_provider quiet "Supplied True" "Some alice" quiet alice]
  from t o m a n have g: "GetProfile ?e (Supplied True) example_provider ?s quiet =
                    (Some Cancelled, ?s, quiet\<lparr>sent := sent quiet @ [?req]\<rparr>)"
    by blast
  have g1: "fst (GetProfile ?e (Supplied True) example_provider ?s quiet) = Some Cancelled"
    by (simp only: g fst_conv)
  have g2: "fst (snd (GetProfile ?e (Supplied True) example_provider ?s quiet)) = ?s"
    by (simp only: g fst_conv snd_conv)
  from t have i: "RefreshSessionIfNeeded ?e (Supplied True) example_provider (Some alice) quiet =
      RefreshSessionIfNeeded ?e Background example_provider (Some alice) quiet"
    by blast
  from t have b: "list_all (\<lambda>r. Ctx r = Background)
        (drop (length (sent quiet)) (sent (snd (ValidateGroup ?e example_provider alice quiet))))"
    by (simp only: list_all_iff) blast
  have l: "length (sent (snd (ValidateGroup ?e example_provider alice quiet))) = 2"
    by (simp add: example_defs run_defs)
  from o have c: "tokenInfoJSON ?e (sent quiet) ?req = Inl Cancelled"
    by simp
  from c m a n g1 g2 i b l show ?thesis
    by blast
qed

text \<open>
  C9 as stated fails for the directory round-trips. The collaborators of the sample
  deployment report \<open>Cancelled\<close> for every request bound to a cancelled context, and under
  a cancelled context profile resolution fails with \<open>Cancelled\<close>. Under the same
  context the refresh, whose session is due, completes with no error: both directory
  requests are sent, bound to the background context, and answered.
\<close>

theorem RefreshSessionIfNeeded_not_cancelled_counterexample:
  "fst (GetProfile (example_env (Inr alice_info) (Inr alice_entry) (Inr eng_ops))
          (Supplied True) example_provider (alice\<lparr>Email := []\<rparr>) quiet) = Some Cancelled
   \<and> fst (RefreshSessionIfNeeded (example_env (Inr alice_info) (Inr alice_entry) (Inr eng_ops))
          (Supplied True) example_provider (Some alice) quiet) = (False, None)
   \<and> fst (RefreshSessionIfNeeded (example_env (Inr alice_info) (Inr alice_entry) (Inr eng_ops))
          (Supplied True) example_provider (Some alice) quiet) \<noteq> (False, Some Cancelled)
   \<and> map Ctx (sent (snd (snd (RefreshSessionIfNeeded
          (example_env (Inr alice_info) (Inr alice_entry) (Inr eng_ops))
          (Supplied True) example_provider (Some alice) quiet)))) = [Background, Background]"
  by (simp add: example_defs run_defs)

end
